theory Spec2Isabelle
  imports Main "HOL-Library.Sublist" "HOL-Library.Word"
begin

section \<open>MirrorMind bot: language preference and prompt dispatch (kmai2.py)\<close>

text \<open>
  A shallow embedding of the handlers of \<^verbatim>\<open>kmai2.py\<close>. A Python \<^verbatim>\<open>str\<close> is modelled
  by its UTF-8 encoding, a \<open>string\<close>: the operations the handlers use (concatenation,
  equality, emptiness, and the operator \<^verbatim>\<open>in\<close> with an ASCII needle) give the same answers
  on the encoding as on the code points. The source file holds its emoji as already
  mis-decoded characters; their bytes are written as they stand in the file.
\<close>

subsection \<open>Strings\<close>

text \<open>Python's \<^verbatim>\<open>needle in hay\<close> on strings: \<open>needle\<close> occurs as a contiguous run.\<close>

fun is_in :: "string \<Rightarrow> string \<Rightarrow> bool" where
  "is_in needle [] = (needle = [])"
| "is_in needle (c # cs) = (prefix needle (c # cs) \<or> is_in needle cs)"

text \<open>Truthiness of a value that is a \<^verbatim>\<open>str\<close> or \<^verbatim>\<open>None\<close>: false for \<^verbatim>\<open>None\<close> and \<^verbatim>\<open>""\<close>.\<close>

fun truthy :: "string option \<Rightarrow> bool" where
  "truthy None = False"
| "truthy (Some s) = (s \<noteq> [])"

text \<open>How an f-string renders a value that is a \<^verbatim>\<open>str\<close> or \<^verbatim>\<open>None\<close>.\<close>

fun py_str :: "string option \<Rightarrow> string" where
  "py_str None = ''None''"
| "py_str (Some s) = s"

subsection \<open>Language system\<close>

definition flag_gb :: string where
  "flag_gb = [CHR 0xC3, CHR 0xB0, CHR 0xC5, CHR 0xB8, CHR 0xE2, CHR 0x80, CHR 0xA1, CHR 0xC2, CHR 0xAC,
              CHR 0xC3, CHR 0xB0, CHR 0xC5, CHR 0xB8, CHR 0xE2, CHR 0x80, CHR 0xA1, CHR 0xC2, CHR 0xA7]"

definition flag_in :: string where
  "flag_in = [CHR 0xC3, CHR 0xB0, CHR 0xC5, CHR 0xB8, CHR 0xE2, CHR 0x80, CHR 0xA1, CHR 0xC2, CHR 0xAE,
              CHR 0xC3, CHR 0xB0, CHR 0xC5, CHR 0xB8, CHR 0xE2, CHR 0x80, CHR 0xA1, CHR 0xC2, CHR 0xB3]"

definition LANGUAGE_KEYBOARD :: "string list list" where
  "LANGUAGE_KEYBOARD =
     [[flag_gb @ '' English''],
      [flag_in @ '' Hindi''],
      [flag_in @ '' Bengali''],
      [flag_in @ '' Hinglish''],
      [flag_in @ '' Bengalish'']]"

definition normalize_language :: "string \<Rightarrow> string option" where
  "normalize_language text =
     (if is_in ''Hinglish'' text then Some ''Hinglish''
      else if is_in ''Bengalish'' text then Some ''Bengalish''
      else if is_in ''English'' text then Some ''English''
      else if is_in ''Hindi'' text then Some ''Hindi''
      else if is_in ''Bengali'' text then Some ''Bengali''
      else None)"

text \<open>The dictionary of \<^verbatim>\<open>language_instruction\<close>, in the order it is written.\<close>

definition mapping :: "(string \<times> string) list" where
  "mapping =
     [(''English'', ''Respond in English.''),
      (''Hindi'', ''Respond in Hindi using Devanagari script.''),
      (''Bengali'', ''Respond in Bengali script.''),
      (''Hinglish'', ''Respond in Hinglish (Hindi written in English letters).''),
      (''Bengalish'', ''Respond in Bengalish (Bengali written in English letters).'')]"

text \<open>
  \<^verbatim>\<open>mapping.get(lang, "Respond in English.")\<close>; the argument is a string or \<^verbatim>\<open>None\<close>,
  and \<^verbatim>\<open>None\<close> is not a key.
\<close>

definition language_instruction :: "string option \<Rightarrow> string" where
  "language_instruction lang =
     (case lang of
        None \<Rightarrow> ''Respond in English.''
      | Some l \<Rightarrow> (case map_of mapping l of Some v \<Rightarrow> v | None \<Rightarrow> ''Respond in English.''))"

text \<open>The five supported language names (the spec's closed enumeration of tags).\<close>

definition language_names :: "string list" where
  "language_names = [''English'', ''Hindi'', ''Bengali'', ''Hinglish'', ''Bengalish'']"

subsection \<open>Persisted tables\<close>

text \<open>
  Table \<^verbatim>\<open>users(user_id INTEGER PRIMARY KEY, language TEXT)\<close>: a list of rows; the
  language column is nullable. Table \<^verbatim>\<open>messages\<close> is a list of rows, appended to.
\<close>

type_synonym users_table = "(int \<times> string option) list"

record message_row =
  row_user_id :: int
  row_text :: string
  mood_score :: "int option"
  timestamp :: "nat option"

text \<open>
  \<^verbatim>\<open>INSERT INTO users(user_id, language) VALUES (?, ?)
  ON CONFLICT(user_id) DO UPDATE SET language=excluded.language\<close>:
  the row with this key is updated where it stands, else a new row is added.
\<close>

fun set_language :: "int \<Rightarrow> string option \<Rightarrow> users_table \<Rightarrow> users_table" where
  "set_language user_id lang [] = [(user_id, lang)]"
| "set_language user_id lang ((k, v) # rows) =
     (if k = user_id then (k, lang) # rows else (k, v) # set_language user_id lang rows)"

text \<open>
  \<^verbatim>\<open>SELECT language FROM users WHERE user_id=?\<close> followed by \<^verbatim>\<open>fetchone()\<close>: the first
  matching row as a one-column tuple, or \<^verbatim>\<open>None\<close> when there is no row.
\<close>

fun get_language :: "int \<Rightarrow> users_table \<Rightarrow> string option option" where
  "get_language user_id [] = None"
| "get_language user_id ((k, v) # rows) =
     (if k = user_id then Some v else get_language user_id rows)"

text \<open>The primary-key constraint of table \<^verbatim>\<open>users\<close>.\<close>

definition primary_key :: "users_table \<Rightarrow> bool" where
  "primary_key rows = distinct (map fst rows)"

subsection \<open>The world around a handler\<close>

type_synonym byte = "8 word"

datatype part = Text_part string | Bytes_part "byte list" string

datatype exn = IndexError | AttributeError | DownloadError | GeminiError | ReplyError

record reply =
  recipient :: int
  body :: "string option"
  reply_markup :: "string list list option"

record media =
  file_id :: nat
  mime_type :: "string option"

text \<open>
  What is stored and what has been sent out: the two tables, the calls made to
  \<^verbatim>\<open>reply_text\<close> and the calls made to \<^verbatim>\<open>client.models.generate_content\<close>, in order.
\<close>

record world =
  users :: users_table
  messages :: "message_row list"
  outbox :: "reply list"
  gen_calls :: "part list list"

text \<open>
  What the collaborators answer while one message is handled: the clock, file retrieval
  (\<^verbatim>\<open>get_file\<close> then \<^verbatim>\<open>download_as_bytearray\<close>: the bytes, or an exception), the
  generation service (\<^verbatim>\<open>generate_content(...)\<close> then \<^verbatim>\<open>.text\<close>: a text that may be
  \<^verbatim>\<open>None\<close>, or an exception), and whether a call of \<^verbatim>\<open>reply_text\<close> returns normally,
  given the calls made before it.
\<close>

record env =
  now :: nat
  download :: "nat \<Rightarrow> exn + byte list"
  generate_content :: "part list \<Rightarrow> exn + string option"
  reply_ok :: "reply list \<Rightarrow> reply \<Rightarrow> bool"

text \<open>
  A handler returns the exception that escapes it, if any, and the world it leaves.
\<close>

type_synonym outcome = "exn option \<times> world"

definition reply_text ::
  "env \<Rightarrow> int \<Rightarrow> string option \<Rightarrow> string list list option \<Rightarrow> world \<Rightarrow> outcome" where
  "reply_text e user_id text markup w =
     (let r = \<lparr>recipient = user_id, body = text, reply_markup = markup\<rparr>
      in (if reply_ok e (outbox w) r then None else Some ReplyError,
          w\<lparr>outbox := outbox w @ [r]\<rparr>))"

subsection \<open>Gemini generator\<close>

text \<open>
  \<^verbatim>\<open>generate_ai\<close>: the call is recorded; any exception is caught (and logged) and
  \<^verbatim>\<open>None\<close> is returned in its place.
\<close>

definition generate_ai :: "env \<Rightarrow> part list \<Rightarrow> world \<Rightarrow> string option \<times> world" where
  "generate_ai e contents w =
     (case generate_content e contents of
        Inr response_text \<Rightarrow> (response_text, w\<lparr>gen_calls := gen_calls w @ [contents]\<rparr>)
      | Inl x \<Rightarrow> (None, w\<lparr>gen_calls := gen_calls w @ [contents]\<rparr>))"

subsection \<open>Commands\<close>

definition start :: "env \<Rightarrow> int \<Rightarrow> world \<Rightarrow> outcome" where
  "start e user_id w =
     (case get_language user_id (users w) of
        None \<Rightarrow> reply_text e user_id (Some ''Select your language:'') (Some LANGUAGE_KEYBOARD) w
      | Some result \<Rightarrow>
          reply_text e user_id (Some (''Hi. Tell me what'' @ [CHR 0x27] @ ''s on your mind.'')) None w)"

definition language_cmd :: "env \<Rightarrow> int \<Rightarrow> world \<Rightarrow> outcome" where
  "language_cmd e user_id w =
     reply_text e user_id (Some ''Select language:'') (Some LANGUAGE_KEYBOARD) w"

subsection \<open>Text handler\<close>

definition check_mark :: string where
  "check_mark = [CHR 0xC3, CHR 0xA2, CHR 0xC5, CHR 0x93, CHR 0xE2, CHR 0x80, CHR 0xA6]"

definition dash :: string where
  "dash = [CHR 0xC3, CHR 0xA2, CHR 0xE2, CHR 0x82, CHR 0xAC, CHR 0xE2, CHR 0x80, CHR 0x9C]"

definition nl :: string where
  "nl = [CHR 0x0A]"

text \<open>The prompt f-string of \<^verbatim>\<open>text_handler\<close>, line by line.\<close>

definition prompt :: "string option \<Rightarrow> string" where
  "prompt lang =
     nl @ ''You are MirrorMind Pro.'' @ nl
     @ language_instruction lang @ nl
     @ nl
     @ ''Tone:'' @ nl
     @ ''- Warm'' @ nl
     @ ''- Emotionally intelligent'' @ nl
     @ ''- Supportive'' @ nl
     @ nl
     @ ''Respond in 4'' @ dash @ ''6 sentences.'' @ nl"

definition text_handler :: "env \<Rightarrow> int \<Rightarrow> string \<Rightarrow> world \<Rightarrow> outcome" where
  "text_handler e user_id text w =
     (let lang_select = normalize_language text in
      if truthy lang_select then
        reply_text e user_id
          (Some (''Language set to '' @ py_str lang_select @ '' '' @ check_mark)) None
          (w\<lparr>users := set_language user_id lang_select (users w)\<rparr>)
      else
        (case get_language user_id (users w) of
           None \<Rightarrow>
             reply_text e user_id (Some ''Please select language first.'')
               (Some LANGUAGE_KEYBOARD) w
         | Some lang \<Rightarrow>
             (case generate_ai e [Text_part (prompt lang), Text_part text] w of
                (ai_response, w1) \<Rightarrow>
                  if \<not> truthy ai_response then
                    reply_text e user_id (Some ''Error generating response.'') None w1
                  else
                    reply_text e user_id ai_response None
                      (w1\<lparr>messages := messages w1 @
                         [\<lparr>row_user_id = user_id, row_text = text, mood_score = None,
                           timestamp = Some (now e)\<rparr>]\<rparr>))))"

subsection \<open>Photo handler\<close>

text \<open>\<^verbatim>\<open>xs[-1]\<close>: the last item; IndexError on an empty list.\<close>

definition last_item :: "'a list \<Rightarrow> exn + 'a" where
  "last_item xs = (if xs = [] then Inl IndexError else Inr (last xs))"

text \<open>
  The body of a media handler from the database lookup on, which the photo and the audio
  handler share word for word but for the purpose hint, the MIME type and the fallback:
  the preference defaults to English, and the \<^verbatim>\<open>try\<close> block holds the generation call and
  the reply with its text, so an exception of either leads to the fallback reply.
\<close>

definition media_reply ::
  "env \<Rightarrow> int \<Rightarrow> string \<Rightarrow> byte list \<Rightarrow> string \<Rightarrow> string \<Rightarrow> world \<Rightarrow> outcome" where
  "media_reply e user_id hint file_bytes mime fallback w =
     (let lang = (case get_language user_id (users w) of
                    Some result \<Rightarrow> result
                  | None \<Rightarrow> Some ''English'');
          contents = [Text_part (language_instruction lang @ '' '' @ hint),
                      Bytes_part file_bytes mime];
          w1 = w\<lparr>gen_calls := gen_calls w @ [contents]\<rparr>
      in case generate_content e contents of
           Inl x \<Rightarrow> reply_text e user_id (Some fallback) None w1
         | Inr response_text \<Rightarrow>
             (case reply_text e user_id response_text None w1 of
                (None, w2) \<Rightarrow> (None, w2)
              | (Some x, w2) \<Rightarrow> reply_text e user_id (Some fallback) None w2))"

definition photo_handler :: "env \<Rightarrow> int \<Rightarrow> nat list \<Rightarrow> world \<Rightarrow> outcome" where
  "photo_handler e user_id photos w =
     (case last_item photos of
        Inl x \<Rightarrow> (Some x, w)
      | Inr photo \<Rightarrow>
          (case download e photo of
             Inl x \<Rightarrow> (Some x, w)
           | Inr file_bytes \<Rightarrow>
               media_reply e user_id ''Describe this image emotionally.'' file_bytes
                 ''image/jpeg'' (''Couldn'' @ [CHR 0x27] @ ''t analyze image.'') w))"

subsection \<open>Smart audio handler\<close>

definition audio_handler :: "env \<Rightarrow> int \<Rightarrow> media option \<Rightarrow> media option \<Rightarrow> world \<Rightarrow> outcome" where
  "audio_handler e user_id voice audio w =
     (case (case voice of Some v \<Rightarrow> Some v | None \<Rightarrow> audio) of
        None \<Rightarrow> (Some AttributeError, w)
      | Some m \<Rightarrow>
          (case download e (file_id m) of
             Inl x \<Rightarrow> (Some x, w)
           | Inr file_bytes \<Rightarrow>
               media_reply e user_id ''Transcribe this audio and respond emotionally.''
                 file_bytes
                 (if truthy (mime_type m) then py_str (mime_type m) else ''audio/ogg'')
                 (''Couldn'' @ [CHR 0x27] @ ''t process audio.'') w))"

subsection \<open>Video handler\<close>

definition fire :: string where
  "fire = [CHR 0xC3, CHR 0xB0, CHR 0xC5, CHR 0xB8, CHR 0xE2, CHR 0x80, CHR 0x9D, CHR 0xC2, CHR 0xA5]"

definition video_handler :: "env \<Rightarrow> int \<Rightarrow> world \<Rightarrow> outcome" where
  "video_handler e user_id w =
     reply_text e user_id
       (Some (''Video analysis currently limited. Coming soon '' @ fire)) None w"

subsection \<open>Handler registration\<close>

text \<open>
  An inbound message as the filters of the registered handlers classify it: the two
  commands, plain text, photo (its size variants), voice or audio, video; each with the
  sender's id.
\<close>

datatype update =
    Start_command int
  | Language_command int
  | Text_message int string
  | Photo_message int "nat list"
  | Audio_message int "media option" "media option"
  | Video_message int

fun sender :: "update \<Rightarrow> int" where
  "sender (Start_command u) = u"
| "sender (Language_command u) = u"
| "sender (Text_message u t) = u"
| "sender (Photo_message u ps) = u"
| "sender (Audio_message u v a) = u"
| "sender (Video_message u) = u"

fun process_update :: "env \<Rightarrow> update \<Rightarrow> world \<Rightarrow> outcome" where
  "process_update e (Start_command u) w = start e u w"
| "process_update e (Language_command u) w = language_cmd e u w"
| "process_update e (Text_message u t) w = text_handler e u t w"
| "process_update e (Photo_message u ps) w = photo_handler e u ps w"
| "process_update e (Audio_message u v a) w = audio_handler e u v a w"
| "process_update e (Video_message u) w = video_handler e u w"

text \<open>
  Media retrieval succeeds: the message carries a file and the platform hands its bytes
  over. Messages without media have nothing to retrieve.
\<close>

fun media_retrieved :: "env \<Rightarrow> update \<Rightarrow> bool" where
  "media_retrieved e (Photo_message u ps) =
     (case last_item ps of
        Inl x \<Rightarrow> False
      | Inr p \<Rightarrow> (case download e p of Inl x \<Rightarrow> False | Inr b \<Rightarrow> True))"
| "media_retrieved e (Audio_message u v a) =
     (case (case v of Some m \<Rightarrow> Some m | None \<Rightarrow> a) of
        None \<Rightarrow> False
      | Some m \<Rightarrow> (case download e (file_id m) of Inl x \<Rightarrow> False | Inr b \<Rightarrow> True))"
| "media_retrieved e upd = True"

subsection \<open>Observations on an outcome\<close>

text \<open>The replies and the generation calls made between world \<open>w\<close> and world \<open>w'\<close>.\<close>

definition new_replies :: "world \<Rightarrow> world \<Rightarrow> reply list" where
  "new_replies w w' = drop (length (outbox w)) (outbox w')"

definition new_gen_calls :: "world \<Rightarrow> world \<Rightarrow> part list list" where
  "new_gen_calls w w' = drop (length (gen_calls w)) (gen_calls w')"

text \<open>
  The replies among \<open>rs\<close> for which \<^verbatim>\<open>reply_text\<close> returned normally, that is, the ones
  the platform accepted; \<open>h\<close> holds the calls made before them.
\<close>

fun accepted :: "env \<Rightarrow> reply list \<Rightarrow> reply list \<Rightarrow> reply list" where
  "accepted e h [] = []"
| "accepted e h (r # rs) =
     (if reply_ok e h r then r # accepted e (h @ [r]) rs else accepted e (h @ [r]) rs)"

definition delivered :: "env \<Rightarrow> world \<Rightarrow> world \<Rightarrow> reply list" where
  "delivered e w w' = accepted e (outbox w) (new_replies w w')"

text \<open>
  The handler returned normally, kept the outbox it found, and exactly one of the
  replies it made was accepted, a reply to user \<open>u\<close>.
\<close>

definition delivered_once :: "env \<Rightarrow> int \<Rightarrow> world \<Rightarrow> outcome \<Rightarrow> bool" where
  "delivered_once e u w out =
     (fst out = None
      \<and> take (length (outbox w)) (outbox (snd out)) = outbox w
      \<and> map recipient (delivered e w (snd out)) = [u])"

text \<open>A reply that offers the language keyboard.\<close>

definition selection_prompt :: "reply \<Rightarrow> bool" where
  "selection_prompt r = (reply_markup r = Some LANGUAGE_KEYBOARD)"

subsection \<open>Scenarios\<close>

text \<open>Concrete worlds and collaborators on which the handlers are run below.\<close>

definition world0 :: world where
  "world0 = \<lparr>users = [], messages = [], outbox = [], gen_calls = []\<rparr>"

definition world_english :: world where
  "world_english = \<lparr>users = [(7, Some ''English'')], messages = [], outbox = [], gen_calls = []\<rparr>"

text \<open>Everything works: files download, the service answers, replies go out.\<close>

definition env_ok :: env where
  "env_ok = \<lparr>now = 1700000000, download = (\<lambda>f. Inr [0xFF, 0xD8, 0xFF]),
             generate_content = (\<lambda>c. Inr (Some ''I hear you.'')),
             reply_ok = (\<lambda>h r. True)\<rparr>"

text \<open>The platform fails to hand a file over.\<close>

definition env_download_fails :: env where
  "env_download_fails = \<lparr>now = 1700000000, download = (\<lambda>f. Inl DownloadError),
             generate_content = (\<lambda>c. Inr (Some ''I hear you.'')),
             reply_ok = (\<lambda>h r. True)\<rparr>"

text \<open>The service answers without an exception, with the empty text.\<close>

definition env_empty_text :: env where
  "env_empty_text = \<lparr>now = 1700000000, download = (\<lambda>f. Inr [0xFF, 0xD8, 0xFF]),
             generate_content = (\<lambda>c. Inr (Some [])),
             reply_ok = (\<lambda>h r. True)\<rparr>"

text \<open>The service raises.\<close>

definition env_gemini_down :: env where
  "env_gemini_down = \<lparr>now = 1700000000, download = (\<lambda>f. Inr [0xFF, 0xD8, 0xFF]),
             generate_content = (\<lambda>c. Inl GeminiError),
             reply_ok = (\<lambda>h r. True)\<rparr>"

text \<open>
  The service answers without a text, and the platform refuses a reply that has no
  text or an empty one.
\<close>

definition env_no_text :: env where
  "env_no_text = \<lparr>now = 1700000000, download = (\<lambda>f. Inr [0xFF, 0xD8, 0xFF]),
             generate_content = (\<lambda>c. Inr None),
             reply_ok = (\<lambda>h r. truthy (body r))\<rparr>"

section \<open>The language resolver\<close>

subsection \<open>The operator \<^verbatim>\<open>in\<close>\<close>

text \<open>\<open>is_in\<close> is containment as a contiguous run, the \<open>sublist\<close> of the library.\<close>

lemma is_in_iff: "is_in needle hay \<longleftrightarrow> (\<exists>ps ss. hay = ps @ needle @ ss)"
proof (induction hay)
  case Nil
  then show ?case by auto
next
  case (Cons c cs)
  show ?case
  proof
    assume "is_in needle (c # cs)"
    then consider "prefix needle (c # cs)" | "is_in needle cs" by auto
    then show "\<exists>ps ss. c # cs = ps @ needle @ ss"
    proof cases
      case 1
      then obtain ss where "c # cs = needle @ ss" by (auto simp: prefix_def)
      then have "c # cs = [] @ needle @ ss" by simp
      then show ?thesis by blast
    next
      case 2
      with Cons.IH obtain ps ss where "cs = ps @ needle @ ss" by blast
      then have "c # cs = (c # ps) @ needle @ ss" by simp
      then show ?thesis by blast
    qed
  next
    assume "\<exists>ps ss. c # cs = ps @ needle @ ss"
    then obtain ps ss where eq: "c # cs = ps @ needle @ ss" by blast
    show "is_in needle (c # cs)"
    proof (cases ps)
      case Nil
      with eq have "prefix needle (c # cs)" by (simp add: prefix_def)
      then show ?thesis by simp
    next
      case (Cons p ps')
      with eq have "cs = ps' @ needle @ ss" by simp
      with Cons.IH have "is_in needle cs" by blast
      then show ?thesis by simp
    qed
  qed
qed

lemma is_in_sublist: "is_in needle hay = sublist needle hay"
  by (simp add: is_in_iff sublist_def)

lemma bengalish_holds_bengali: "is_in ''Bengalish'' hay \<Longrightarrow> is_in ''Bengali'' hay"
proof -
  assume "is_in ''Bengalish'' hay"
  then obtain ps ss where "hay = ps @ ''Bengalish'' @ ss" by (auto simp: is_in_iff)
  then have "hay = ps @ ''Bengali'' @ (''sh'' @ ss)" by simp
  then show ?thesis unfolding is_in_iff by blast
qed

subsection \<open>\<^verbatim>\<open>normalize_language\<close>\<close>

lemma normalize_language_nonempty: "normalize_language text = Some tag \<Longrightarrow> tag \<noteq> []"
  by (auto simp: normalize_language_def split: if_splits)

lemma normalize_language_names: "normalize_language text = Some tag \<Longrightarrow> tag \<in> set language_names"
  by (auto simp: normalize_language_def language_names_def split: if_splits)

text \<open>
  Claim C2. A text that contains exactly one of the five language names yields that
  name; a text that contains none of them yields \<^verbatim>\<open>None\<close>.
\<close>

theorem normalize_language_single_name:
  "(\<forall>n \<in> set language_names.
      is_in n text \<and> (\<forall>m \<in> set language_names. m \<noteq> n \<longrightarrow> \<not> is_in m text)
      \<longrightarrow> normalize_language text = Some n)
   \<and> ((\<forall>n \<in> set language_names. \<not> is_in n text) \<longrightarrow> normalize_language text = None)"
  by (simp add: language_names_def normalize_language_def)

text \<open>
  The keyboard button for English holds the name English and no other; a sentence
  without any name is not a selection.
\<close>

theorem normalize_language_single_name_witness:
  "is_in ''English'' (flag_gb @ '' English'')
   \<and> \<not> is_in ''Hindi'' (flag_gb @ '' English'')
   \<and> \<not> is_in ''Bengali'' (flag_gb @ '' English'')
   \<and> \<not> is_in ''Hinglish'' (flag_gb @ '' English'')
   \<and> \<not> is_in ''Bengalish'' (flag_gb @ '' English'')
   \<and> normalize_language (flag_gb @ '' English'') = Some ''English''
   \<and> \<not> is_in ''English'' ''I feel anxious today''
   \<and> \<not> is_in ''Hindi'' ''I feel anxious today''
   \<and> \<not> is_in ''Bengali'' ''I feel anxious today''
   \<and> \<not> is_in ''Hinglish'' ''I feel anxious today''
   \<and> \<not> is_in ''Bengalish'' ''I feel anxious today''
   \<and> normalize_language ''I feel anxious today'' = None"
proof -
  have a: "is_in ''English'' (flag_gb @ '' English'')"
    by (simp add: flag_gb_def)
  have b: "\<forall>m \<in> set language_names. m \<noteq> ''English'' \<longrightarrow> \<not> is_in m (flag_gb @ '' English'')"
    by (simp add: flag_gb_def language_names_def)
  have c: "\<forall>n \<in> set language_names. \<not> is_in n ''I feel anxious today''"
    by (simp add: language_names_def)
  have d: "''English'' \<in> set language_names"
    by (simp add: language_names_def)
  from normalize_language_single_name [of "flag_gb @ '' English''"] a b d
  have e: "normalize_language (flag_gb @ '' English'') = Some ''English''" by blast
  from normalize_language_single_name [of "''I feel anxious today''"] c
  have f: "normalize_language ''I feel anxious today'' = None" by blast
  from a b c e f show ?thesis by (simp add: language_names_def)
qed

text \<open>
  A text that holds Bengalish next to Hinglish yields Hinglish, the name checked first:
  holding Bengalish does not by itself make the result Bengalish.
\<close>

theorem normalize_language_bengalish_counterexample:
  "is_in ''Bengalish'' ''Hinglish Bengalish''
   \<and> normalize_language ''Hinglish Bengalish'' = Some ''Hinglish''
   \<and> normalize_language ''Hinglish Bengalish'' \<noteq> Some ''Bengalish''"
  by (simp add: normalize_language_def)

text \<open>
  Claim C3, amended. The result is the first name, in the order Hinglish, Bengalish,
  English, Hindi, Bengali, that the text contains. So a text with Hinglish and Hindi
  yields Hinglish; a text with Bengalish and without Hinglish yields Bengalish; and a
  text with Bengalish never yields Bengali.
\<close>

theorem normalize_language_priority:
  "normalize_language text =
     find (\<lambda>n. is_in n text) [''Hinglish'', ''Bengalish'', ''English'', ''Hindi'', ''Bengali'']
   \<and> (is_in ''Hinglish'' text \<and> is_in ''Hindi'' text \<longrightarrow>
        normalize_language text = Some ''Hinglish'')
   \<and> (is_in ''Bengalish'' text \<and> \<not> is_in ''Hinglish'' text \<longrightarrow>
        normalize_language text = Some ''Bengalish'')
   \<and> (is_in ''Bengalish'' text \<longrightarrow> normalize_language text \<noteq> Some ''Bengali'')"
  by (simp add: normalize_language_def)

theorem normalize_language_priority_witness:
  "is_in ''Hinglish'' ''Hindi or Hinglish?'' \<and> is_in ''Hindi'' ''Hindi or Hinglish?''
   \<and> normalize_language ''Hindi or Hinglish?'' = Some ''Hinglish''
   \<and> is_in ''Bengalish'' (flag_in @ '' Bengalish'')
   \<and> \<not> is_in ''Hinglish'' (flag_in @ '' Bengalish'')
   \<and> normalize_language (flag_in @ '' Bengalish'') = Some ''Bengalish''
   \<and> normalize_language (flag_in @ '' Bengalish'') \<noteq> Some ''Bengali''"
proof -
  have a: "is_in ''Hinglish'' ''Hindi or Hinglish?'' \<and> is_in ''Hindi'' ''Hindi or Hinglish?''"
    by simp
  have b: "is_in ''Bengalish'' (flag_in @ '' Bengalish'')
           \<and> \<not> is_in ''Hinglish'' (flag_in @ '' Bengalish'')"
    by (simp add: flag_in_def)
  from normalize_language_priority [of "''Hindi or Hinglish?''"] a
  have c: "normalize_language ''Hindi or Hinglish?'' = Some ''Hinglish''" by blast
  from normalize_language_priority [of "flag_in @ '' Bengalish''"] b
  have d: "normalize_language (flag_in @ '' Bengalish'') = Some ''Bengalish''
           \<and> normalize_language (flag_in @ '' Bengalish'') \<noteq> Some ''Bengali''" by blast
  from a b c d show ?thesis by blast
qed

subsection \<open>\<^verbatim>\<open>language_instruction\<close>\<close>

lemma english_instruction: "language_instruction (Some ''English'') = ''Respond in English.''"
  by (simp add: language_instruction_def mapping_def)

text \<open>
  Claim C7. Each of the five tags yields its directive of the table; every other value,
  \<^verbatim>\<open>None\<close> included, yields the English directive. The function is total: it has no
  error result.
\<close>

theorem language_instruction_lookup:
  "language_instruction (Some ''English'') = ''Respond in English.''
   \<and> language_instruction (Some ''Hindi'') = ''Respond in Hindi using Devanagari script.''
   \<and> language_instruction (Some ''Bengali'') = ''Respond in Bengali script.''
   \<and> language_instruction (Some ''Hinglish'') =
       ''Respond in Hinglish (Hindi written in English letters).''
   \<and> language_instruction (Some ''Bengalish'') =
       ''Respond in Bengalish (Bengali written in English letters).''
   \<and> (lang \<notin> Some ` set language_names \<longrightarrow>
        language_instruction lang = ''Respond in English.'')"
proof -
  have "language_instruction lang = ''Respond in English.''"
    if "lang \<notin> Some ` set language_names"
  proof (cases lang)
    case None
    then show ?thesis by (simp add: language_instruction_def)
  next
    case (Some l)
    with that have "l \<notin> set language_names" by auto
    then have "map_of mapping l = None"
      by (simp add: mapping_def language_names_def)
    with Some show ?thesis by (simp add: language_instruction_def)
  qed
  then show ?thesis by (simp add: language_instruction_def mapping_def)
qed

theorem language_instruction_lookup_witness:
  "None \<notin> Some ` set language_names
   \<and> language_instruction None = ''Respond in English.''
   \<and> Some ''French'' \<notin> Some ` set language_names
   \<and> language_instruction (Some ''French'') = ''Respond in English.''
   \<and> Some ''english'' \<notin> Some ` set language_names
   \<and> language_instruction (Some ''english'') = ''Respond in English.''"
proof -
  have a: "None \<notin> Some ` set language_names" by auto
  have b: "Some ''French'' \<notin> Some ` set language_names"
    by (simp add: language_names_def)
  have c: "Some ''english'' \<notin> Some ` set language_names"
    by (simp add: language_names_def)
  from language_instruction_lookup [of None] language_instruction_lookup [of "Some ''French''"]
    language_instruction_lookup [of "Some ''english''"] a b c
  show ?thesis by blast
qed

section \<open>The preference store\<close>

lemma get_set_language: "get_language u (set_language u l rows) = Some l"
  by (induction rows) auto

lemma get_set_language_other:
  "v \<noteq> u \<Longrightarrow> get_language v (set_language u l rows) = get_language v rows"
  by (induction rows) auto

lemma set_language_keys:
  "set (map fst (set_language u l rows)) = insert u (set (map fst rows))"
proof (induction rows)
  case Nil
  then show ?case by simp
next
  case (Cons r rows)
  obtain k v where r: "r = (k, v)" by (cases r)
  show ?case
  proof (cases "k = u")
    case True
    with r show ?thesis by simp
  next
    case False
    with r Cons.IH show ?thesis by (simp add: insert_commute)
  qed
qed

lemma set_language_primary_key: "primary_key rows \<Longrightarrow> primary_key (set_language u l rows)"
  unfolding primary_key_def
proof (induction rows)
  case Nil
  then show ?case by simp
next
  case (Cons r rows)
  obtain k v where r: "r = (k, v)" by (cases r)
  show ?case
  proof (cases "k = u")
    case True
    with Cons.prems r show ?thesis by simp
  next
    case False
    from Cons.prems r have "k \<notin> set (map fst rows)" "distinct (map fst rows)" by auto
    with Cons.IH False r show ?thesis
      using set_language_keys [of u l rows] by simp
  qed
qed

lemma rows_of_set_language:
  "primary_key rows \<Longrightarrow> filter (\<lambda>r. fst r = u) (set_language u l rows) = [(u, l)]"
  unfolding primary_key_def
proof (induction rows)
  case Nil
  then show ?case by simp
next
  case (Cons r rows)
  obtain k v where r: "r = (k, v)" by (cases r)
  show ?case
  proof (cases "k = u")
    case True
    with Cons.prems r have "u \<notin> fst ` set rows" by auto
    then have "filter (\<lambda>r. fst r = u) rows = []"
      by (auto simp: filter_empty_conv)
    with True r show ?thesis by simp
  next
    case False
    with Cons r show ?thesis by simp
  qed
qed

text \<open>
  Claim C4. Reading a user's language after setting it gives the tag just set; a second
  setting replaces the first, so the latest tag is the one read; and on a table that
  respects its primary key the user has exactly one row, holding the latest tag.
\<close>

theorem language_round_trip:
  "get_language u (set_language u (Some tag) rows) = Some (Some tag)
   \<and> get_language u (set_language u (Some tag2) (set_language u (Some tag) rows))
       = Some (Some tag2)
   \<and> (primary_key rows \<longrightarrow>
        primary_key (set_language u (Some tag2) (set_language u (Some tag) rows))
        \<and> filter (\<lambda>r. fst r = u)
            (set_language u (Some tag2) (set_language u (Some tag) rows))
            = [(u, Some tag2)])"
  using get_set_language set_language_primary_key rows_of_set_language by blast

theorem language_round_trip_witness:
  "primary_key [(3, Some ''Hindi''), (7, Some ''English'')]
   \<and> get_language 7 (set_language 7 (Some ''Bengali'') [(3, Some ''Hindi''), (7, Some ''English'')])
       = Some (Some ''Bengali'')
   \<and> set_language 7 (Some ''Hinglish'')
        (set_language 7 (Some ''Bengali'') [(3, Some ''Hindi''), (7, Some ''English'')])
       = [(3, Some ''Hindi''), (7, Some ''Hinglish'')]
   \<and> filter (\<lambda>r. fst r = 7)
        (set_language 7 (Some ''Hinglish'')
          (set_language 7 (Some ''Bengali'') [(3, Some ''Hindi''), (7, Some ''English'')]))
       = [(7, Some ''Hinglish'')]"
proof -
  have pk: "primary_key [(3, Some ''Hindi''), (7, Some ''English'')]"
    by (simp add: primary_key_def)
  from language_round_trip
    [of 7 "''Bengali''" "[(3, Some ''Hindi''), (7, Some ''English'')]" "''Hinglish''"] pk
  show ?thesis by simp
qed

section \<open>The handlers\<close>

subsection \<open>\<^verbatim>\<open>reply_text\<close>\<close>

lemma snd_reply_text:
  "snd (reply_text e u t m w) =
     w\<lparr>outbox := outbox w @ [\<lparr>recipient = u, body = t, reply_markup = m\<rparr>]\<rparr>"
  by (simp add: reply_text_def Let_def)

lemma delivered_once_reply_text:
  assumes "\<forall>h r. truthy (body r) \<longrightarrow> reply_ok e h r"
    and "outbox w' = outbox w" and "truthy t"
  shows "delivered_once e u w (reply_text e u t m w')"
  using assms
  by (simp add: delivered_once_def delivered_def new_replies_def reply_text_def Let_def)

subsection \<open>Video\<close>

text \<open>
  Claim C9. The video handler makes one reply, the static text, and nothing else: no
  generation call, no write to the users table, no write to the messages table.
\<close>

theorem video_handler_static_reply:
  "gen_calls (snd (video_handler e u w)) = gen_calls w
   \<and> users (snd (video_handler e u w)) = users w
   \<and> messages (snd (video_handler e u w)) = messages w
   \<and> outbox (snd (video_handler e u w)) =
       outbox w @ [\<lparr>recipient = u,
                     body = Some (''Video analysis currently limited. Coming soon '' @ fire),
                     reply_markup = None\<rparr>]"
  by (simp add: video_handler_def snd_reply_text)

subsection \<open>Plain text: selection\<close>

text \<open>
  Claim C8. When the resolver yields a tag for the text, the handler stores that tag
  for the user, makes one reply, the confirmation, and stops: the generation calls and
  the messages table are as before.
\<close>

theorem selection_consumed:
  assumes "normalize_language text = Some tag"
  shows "users (snd (text_handler e u text w)) = set_language u (Some tag) (users w)
   \<and> get_language u (users (snd (text_handler e u text w))) = Some (Some tag)
   \<and> outbox (snd (text_handler e u text w)) =
       outbox w @ [\<lparr>recipient = u,
                     body = Some (''Language set to '' @ tag @ '' '' @ check_mark),
                     reply_markup = None\<rparr>]
   \<and> gen_calls (snd (text_handler e u text w)) = gen_calls w
   \<and> messages (snd (text_handler e u text w)) = messages w"
proof -
  from assms have "tag \<noteq> []" by (rule normalize_language_nonempty)
  with assms have
    "text_handler e u text w =
       reply_text e u (Some (''Language set to '' @ tag @ '' '' @ check_mark)) None
         (w\<lparr>users := set_language u (Some tag) (users w)\<rparr>)"
    by (simp add: text_handler_def Let_def)
  then show ?thesis by (simp add: snd_reply_text get_set_language)
qed

theorem selection_consumed_witness:
  "normalize_language (flag_in @ '' Hindi'') = Some ''Hindi''
   \<and> snd (text_handler env_ok 7 (flag_in @ '' Hindi'') world_english) =
       \<lparr>users = [(7, Some ''Hindi'')], messages = [],
        outbox = [\<lparr>recipient = 7, body = Some (''Language set to Hindi '' @ check_mark),
                   reply_markup = None\<rparr>],
        gen_calls = []\<rparr>"
proof -
  have n: "normalize_language (flag_in @ '' Hindi'') = Some ''Hindi''"
    by (simp add: normalize_language_def flag_in_def)
  from selection_consumed [OF n, of env_ok 7 world_english] n
  show ?thesis by (simp add: world_english_def world.equality)
qed

subsection \<open>Plain text: case of the letters\<close>

text \<open>
  Claim C10. The match is on the exact letters: the all-lowercase \<^verbatim>\<open>english\<close> yields
  \<^verbatim>\<open>None\<close> where \<^verbatim>\<open>English\<close> yields the tag. The text handler then takes it as content:
  the users table stays as it is, and for a user with a stored language the text goes
  to the generation service.
\<close>

theorem normalize_language_case_sensitive:
  "normalize_language ''english'' = None
   \<and> normalize_language ''English'' = Some ''English''
   \<and> users (snd (text_handler e u ''english'' w)) = users w
   \<and> (get_language u (users w) = Some lang \<longrightarrow>
        gen_calls (snd (text_handler e u ''english'' w)) =
          gen_calls w @ [[Text_part (prompt lang), Text_part ''english'']])"
proof -
  have n: "normalize_language ''english'' = None"
    by (simp add: normalize_language_def)
  have "users (snd (text_handler e u ''english'' w)) = users w"
    by (simp add: text_handler_def n generate_ai_def snd_reply_text
        split: option.split sum.split prod.split)
  moreover have "gen_calls (snd (text_handler e u ''english'' w)) =
          gen_calls w @ [[Text_part (prompt lang), Text_part ''english'']]"
    if "get_language u (users w) = Some lang"
    using that
    by (simp add: text_handler_def n generate_ai_def snd_reply_text
        split: option.split sum.split prod.split)
  moreover have "normalize_language ''English'' = Some ''English''"
    by (simp add: normalize_language_def)
  ultimately show ?thesis using n by blast
qed

theorem normalize_language_case_sensitive_witness:
  "get_language 7 (users world_english) = Some (Some ''English'')
   \<and> normalize_language ''english'' = None
   \<and> users (snd (text_handler env_ok 7 ''english'' world_english)) = [(7, Some ''English'')]
   \<and> gen_calls (snd (text_handler env_ok 7 ''english'' world_english)) =
        [[Text_part (prompt (Some ''English'')), Text_part ''english'']]"
proof -
  have g: "get_language 7 (users world_english) = Some (Some ''English'')"
    by (simp add: world_english_def)
  from normalize_language_case_sensitive [of env_ok 7 world_english "Some ''English''"] g
  show ?thesis by (simp add: world_english_def)
qed

subsection \<open>Plain text: content\<close>

lemma truthy_generate_ai:
  "truthy (fst (generate_ai e c w)) = (\<exists>t. generate_content e c = Inr (Some t) \<and> t \<noteq> [])"
proof (cases "generate_content e c")
  case (Inl x)
  then show ?thesis by (simp add: generate_ai_def)
next
  case (Inr r)
  then show ?thesis by (cases r) (simp_all add: generate_ai_def)
qed

lemma text_handler_content:
  assumes "normalize_language text = None" and "get_language u (users w) = Some lang"
  shows "text_handler e u text w =
      (case generate_ai e [Text_part (prompt lang), Text_part text] w of
         (ai_response, w1) \<Rightarrow>
           if \<not> truthy ai_response then
             reply_text e u (Some ''Error generating response.'') None w1
           else
             reply_text e u ai_response None
               (w1\<lparr>messages := messages w1 @
                  [\<lparr>row_user_id = u, row_text = text, mood_score = None,
                    timestamp = Some (now e)\<rparr>]\<rparr>))"
  using assms by (simp add: text_handler_def)

text \<open>
  The service answers without an exception, with the empty text: the handler takes the
  empty text as a failure, writes no row and makes the fallback reply.
\<close>

theorem empty_generation_counterexample:
  "normalize_language ''hello'' = None
   \<and> get_language 7 (users world_english) = Some (Some ''English'')
   \<and> generate_content env_empty_text [Text_part (prompt (Some ''English'')), Text_part ''hello'']
       = Inr (Some [])
   \<and> messages (snd (text_handler env_empty_text 7 ''hello'' world_english)) = []
   \<and> outbox (snd (text_handler env_empty_text 7 ''hello'' world_english))
       = [\<lparr>recipient = 7, body = Some ''Error generating response.'', reply_markup = None\<rparr>]"
  by (simp add: text_handler_def normalize_language_def generate_ai_def snd_reply_text
      env_empty_text_def world_english_def)

text \<open>
  Claim C5, amended. For a plain text that is not a selection, from a user with a stored
  language: when the generation call returns a text that is not empty, one row is
  appended to the messages table, with the user, the original text, no mood score and
  the time of the clock, and the one reply is the generated text; in every other case
  (an exception, no text, the empty text) no row is appended and the one reply is the
  fallback. In both cases one generation call is made.
\<close>

theorem text_generation_logging:
  assumes "normalize_language text = None" and "get_language u (users w) = Some lang"
  shows
    "(generate_content e [Text_part (prompt lang), Text_part text] = Inr (Some t) \<and> t \<noteq> [] \<longrightarrow>
        messages (snd (text_handler e u text w)) =
          messages w @ [\<lparr>row_user_id = u, row_text = text, mood_score = None,
                          timestamp = Some (now e)\<rparr>]
        \<and> outbox (snd (text_handler e u text w)) =
          outbox w @ [\<lparr>recipient = u, body = Some t, reply_markup = None\<rparr>])
     \<and> (\<not> (\<exists>t. generate_content e [Text_part (prompt lang), Text_part text] = Inr (Some t)
              \<and> t \<noteq> []) \<longrightarrow>
        messages (snd (text_handler e u text w)) = messages w
        \<and> outbox (snd (text_handler e u text w)) =
          outbox w @ [\<lparr>recipient = u, body = Some ''Error generating response.'',
                        reply_markup = None\<rparr>])
     \<and> gen_calls (snd (text_handler e u text w)) =
          gen_calls w @ [[Text_part (prompt lang), Text_part text]]"
proof -
  let ?c = "[Text_part (prompt lang), Text_part text]"
  note th = text_handler_content [OF assms, of e]
  have ok: "generate_content e ?c = Inr (Some t) \<and> t \<noteq> [] \<longrightarrow>
        messages (snd (text_handler e u text w)) =
          messages w @ [\<lparr>row_user_id = u, row_text = text, mood_score = None,
                          timestamp = Some (now e)\<rparr>]
        \<and> outbox (snd (text_handler e u text w)) =
          outbox w @ [\<lparr>recipient = u, body = Some t, reply_markup = None\<rparr>]"
    by (simp add: th generate_ai_def snd_reply_text)
  have "\<not> truthy (fst (generate_ai e ?c w)) \<longrightarrow>
        messages (snd (text_handler e u text w)) = messages w
        \<and> outbox (snd (text_handler e u text w)) =
          outbox w @ [\<lparr>recipient = u, body = Some ''Error generating response.'',
                        reply_markup = None\<rparr>]"
    by (simp add: th generate_ai_def snd_reply_text split: sum.split)
  then have bad: "\<not> (\<exists>t. generate_content e ?c = Inr (Some t) \<and> t \<noteq> []) \<longrightarrow>
        messages (snd (text_handler e u text w)) = messages w
        \<and> outbox (snd (text_handler e u text w)) =
          outbox w @ [\<lparr>recipient = u, body = Some ''Error generating response.'',
                        reply_markup = None\<rparr>]"
    by (simp only: truthy_generate_ai)
  have calls: "gen_calls (snd (text_handler e u text w)) = gen_calls w @ [?c]"
    by (simp add: th generate_ai_def snd_reply_text split: sum.split)
  from ok bad calls show ?thesis by blast
qed

theorem text_generation_logging_witness:
  "normalize_language ''I feel anxious today'' = None
   \<and> get_language 7 (users world_english) = Some (Some ''English'')
   \<and> generate_content env_ok
        [Text_part (prompt (Some ''English'')), Text_part ''I feel anxious today'']
       = Inr (Some ''I hear you.'')
   \<and> messages (snd (text_handler env_ok 7 ''I feel anxious today'' world_english)) =
       [\<lparr>row_user_id = 7, row_text = ''I feel anxious today'', mood_score = None,
         timestamp = Some 1700000000\<rparr>]
   \<and> outbox (snd (text_handler env_ok 7 ''I feel anxious today'' world_english)) =
       [\<lparr>recipient = 7, body = Some ''I hear you.'', reply_markup = None\<rparr>]
   \<and> generate_content env_gemini_down
        [Text_part (prompt (Some ''English'')), Text_part ''I feel anxious today'']
       = Inl GeminiError
   \<and> messages (snd (text_handler env_gemini_down 7 ''I feel anxious today'' world_english)) = []
   \<and> outbox (snd (text_handler env_gemini_down 7 ''I feel anxious today'' world_english)) =
       [\<lparr>recipient = 7, body = Some ''Error generating response.'', reply_markup = None\<rparr>]"
proof -
  have n: "normalize_language ''I feel anxious today'' = None"
    by (simp add: normalize_language_def)
  have g: "get_language 7 (users world_english) = Some (Some ''English'')"
    by (simp add: world_english_def)
  have a: "generate_content env_ok
        [Text_part (prompt (Some ''English'')), Text_part ''I feel anxious today'']
       = Inr (Some ''I hear you.'')"
    by (simp add: env_ok_def)
  have b: "generate_content env_gemini_down
        [Text_part (prompt (Some ''English'')), Text_part ''I feel anxious today'']
       = Inl GeminiError"
    by (simp add: env_gemini_down_def)
  from text_generation_logging [OF n g, of env_ok "''I hear you.''"] a
  have c: "messages (snd (text_handler env_ok 7 ''I feel anxious today'' world_english)) =
       [\<lparr>row_user_id = 7, row_text = ''I feel anxious today'', mood_score = None,
         timestamp = Some 1700000000\<rparr>]
   \<and> outbox (snd (text_handler env_ok 7 ''I feel anxious today'' world_english)) =
       [\<lparr>recipient = 7, body = Some ''I hear you.'', reply_markup = None\<rparr>]"
    by (simp add: world_english_def env_ok_def)
  from text_generation_logging [OF n g, of env_gemini_down "''''"] b
  have d: "messages (snd (text_handler env_gemini_down 7 ''I feel anxious today'' world_english)) = []
   \<and> outbox (snd (text_handler env_gemini_down 7 ''I feel anxious today'' world_english)) =
       [\<lparr>recipient = 7, body = Some ''Error generating response.'', reply_markup = None\<rparr>]"
    by (simp add: world_english_def)
  from n g a b c d show ?thesis by blast
qed

subsection \<open>Media without a stored language\<close>

lemma media_reply_gen_calls:
  "gen_calls (snd (media_reply e u hint b mime fb w)) =
     gen_calls w @
       [[Text_part (language_instruction
           (case get_language u (users w) of Some result \<Rightarrow> result | None \<Rightarrow> Some ''English'')
           @ '' '' @ hint),
         Bytes_part b mime]]"
  by (simp add: media_reply_def Let_def reply_text_def split: sum.split prod.split option.split)

lemma media_reply_no_prompt:
  "list_all (\<lambda>r. \<not> selection_prompt r) (new_replies w (snd (media_reply e u hint b mime fb w)))"
  by (simp add: media_reply_def Let_def reply_text_def new_replies_def selection_prompt_def
      split: sum.split prod.split option.split)

lemma photo_handler_no_prompt:
  "list_all (\<lambda>r. \<not> selection_prompt r) (new_replies w (snd (photo_handler e u ps w)))"
  by (simp add: photo_handler_def media_reply_no_prompt split: sum.split)
    (simp add: new_replies_def)

lemma audio_handler_no_prompt:
  "list_all (\<lambda>r. \<not> selection_prompt r) (new_replies w (snd (audio_handler e u v a w)))"
  by (simp add: audio_handler_def media_reply_no_prompt split: sum.split option.split)
    (simp add: new_replies_def)

lemma photo_handler_english_calls:
  assumes "get_language u (users w) = None"
  shows "list_all
     (\<lambda>c. take 1 c = [Text_part ''Respond in English. Describe this image emotionally.''])
     (new_gen_calls w (snd (photo_handler e u ps w)))"
  using assms
  by (simp add: photo_handler_def new_gen_calls_def media_reply_gen_calls english_instruction
      split: sum.split)

lemma audio_handler_english_calls:
  assumes "get_language u (users w) = None"
  shows "list_all
     (\<lambda>c. take 1 c =
        [Text_part ''Respond in English. Transcribe this audio and respond emotionally.''])
     (new_gen_calls w (snd (audio_handler e u v a w)))"
  using assms
  by (simp add: audio_handler_def new_gen_calls_def media_reply_gen_calls english_instruction
      split: sum.split option.split)

text \<open>
  Claim C6. For a user with no stored language: the photo handler and the audio handler
  send no selection prompt, every generation call they make carries the English
  directive, and they make that call once the file is retrieved; the text handler, for
  a text that is not a selection, makes no generation call and its one reply is the
  selection prompt.
\<close>

theorem unset_preference_routing:
  assumes "get_language u (users w) = None"
  shows
    "list_all
       (\<lambda>c. take 1 c = [Text_part ''Respond in English. Describe this image emotionally.''])
       (new_gen_calls w (snd (photo_handler e u ps w)))
     \<and> (ps \<noteq> [] \<and> download e (last ps) = Inr b \<longrightarrow>
        gen_calls (snd (photo_handler e u ps w)) =
          gen_calls w @ [[Text_part ''Respond in English. Describe this image emotionally.'',
                          Bytes_part b ''image/jpeg'']])
     \<and> list_all (\<lambda>r. \<not> selection_prompt r) (new_replies w (snd (photo_handler e u ps w)))
     \<and> list_all
       (\<lambda>c. take 1 c =
          [Text_part ''Respond in English. Transcribe this audio and respond emotionally.''])
       (new_gen_calls w (snd (audio_handler e u v a w)))
     \<and> ((case v of Some m \<Rightarrow> Some m | None \<Rightarrow> a) = Some m \<and> download e (file_id m) = Inr b \<longrightarrow>
        gen_calls (snd (audio_handler e u v a w)) =
          gen_calls w @
            [[Text_part ''Respond in English. Transcribe this audio and respond emotionally.'',
              Bytes_part b (if truthy (mime_type m) then py_str (mime_type m)
                            else ''audio/ogg'')]])
     \<and> list_all (\<lambda>r. \<not> selection_prompt r) (new_replies w (snd (audio_handler e u v a w)))
     \<and> (normalize_language text = None \<longrightarrow>
        gen_calls (snd (text_handler e u text w)) = gen_calls w
        \<and> new_replies w (snd (text_handler e u text w)) =
            [\<lparr>recipient = u, body = Some ''Please select language first.'',
              reply_markup = Some LANGUAGE_KEYBOARD\<rparr>]
        \<and> list_all selection_prompt (new_replies w (snd (text_handler e u text w))))"
proof -
  have photo: "gen_calls (snd (photo_handler e u ps w)) =
          gen_calls w @ [[Text_part ''Respond in English. Describe this image emotionally.'',
                          Bytes_part b ''image/jpeg'']]"
    if "ps \<noteq> []" "download e (last ps) = Inr b"
    using that assms
    by (simp add: photo_handler_def last_item_def media_reply_gen_calls english_instruction)
  have audio: "gen_calls (snd (audio_handler e u v a w)) =
          gen_calls w @
            [[Text_part ''Respond in English. Transcribe this audio and respond emotionally.'',
              Bytes_part b (if truthy (mime_type m) then py_str (mime_type m)
                            else ''audio/ogg'')]]"
    if "(case v of Some m \<Rightarrow> Some m | None \<Rightarrow> a) = Some m" "download e (file_id m) = Inr b"
    using that assms
    by (simp add: audio_handler_def media_reply_gen_calls english_instruction)
  have branch: "text_handler e u text w =
      reply_text e u (Some ''Please select language first.'') (Some LANGUAGE_KEYBOARD) w"
    if "normalize_language text = None"
    using that assms by (simp add: text_handler_def)
  have plain: "gen_calls (snd (text_handler e u text w)) = gen_calls w
        \<and> new_replies w (snd (text_handler e u text w)) =
            [\<lparr>recipient = u, body = Some ''Please select language first.'',
              reply_markup = Some LANGUAGE_KEYBOARD\<rparr>]
        \<and> list_all selection_prompt (new_replies w (snd (text_handler e u text w)))"
    if "normalize_language text = None"
    by (simp add: branch [OF that] snd_reply_text new_replies_def selection_prompt_def)
  from photo audio plain photo_handler_no_prompt audio_handler_no_prompt
    photo_handler_english_calls [OF assms] audio_handler_english_calls [OF assms]
  show ?thesis by blast
qed

theorem unset_preference_routing_witness:
  "get_language 7 (users world0) = None
   \<and> [1, 2] \<noteq> ([] :: nat list) \<and> download env_ok (last [1, 2]) = Inr [0xFF, 0xD8, 0xFF]
   \<and> gen_calls (snd (photo_handler env_ok 7 [1, 2] world0)) =
        [[Text_part ''Respond in English. Describe this image emotionally.'',
          Bytes_part [0xFF, 0xD8, 0xFF] ''image/jpeg'']]
   \<and> new_replies world0 (snd (photo_handler env_ok 7 [1, 2] world0)) =
        [\<lparr>recipient = 7, body = Some ''I hear you.'', reply_markup = None\<rparr>]
   \<and> gen_calls (snd (audio_handler env_ok 7 (Some \<lparr>file_id = 5, mime_type = None\<rparr>) None world0)) =
        [[Text_part ''Respond in English. Transcribe this audio and respond emotionally.'',
          Bytes_part [0xFF, 0xD8, 0xFF] ''audio/ogg'']]
   \<and> normalize_language ''I feel anxious today'' = None
   \<and> gen_calls (snd (text_handler env_ok 7 ''I feel anxious today'' world0)) = []
   \<and> new_replies world0 (snd (text_handler env_ok 7 ''I feel anxious today'' world0)) =
        [\<lparr>recipient = 7, body = Some ''Please select language first.'',
          reply_markup = Some LANGUAGE_KEYBOARD\<rparr>]"
proof -
  have g: "get_language 7 (users world0) = None" by (simp add: world0_def)
  have p: "[1, 2] \<noteq> ([] :: nat list) \<and> download env_ok (last [1, 2]) = Inr [0xFF, 0xD8, 0xFF]"
    by (simp add: env_ok_def)
  have a: "(case Some \<lparr>file_id = 5, mime_type = None\<rparr> of Some m \<Rightarrow> Some m | None \<Rightarrow> None)
             = Some \<lparr>file_id = 5, mime_type = None\<rparr>
           \<and> download env_ok (file_id \<lparr>file_id = 5, mime_type = None\<rparr>) = Inr [0xFF, 0xD8, 0xFF]"
    by (simp add: env_ok_def)
  have n: "normalize_language ''I feel anxious today'' = None"
    by (simp add: normalize_language_def)
  have r: "new_replies world0 (snd (photo_handler env_ok 7 [1, 2] world0)) =
        [\<lparr>recipient = 7, body = Some ''I hear you.'', reply_markup = None\<rparr>]"
    by (simp add: photo_handler_def last_item_def media_reply_def reply_text_def Let_def
        new_replies_def env_ok_def world0_def)
  from unset_preference_routing [OF g, where ps = "[1, 2]" and e = env_ok
      and b = "[0xFF, 0xD8, 0xFF]"
      and v = "Some \<lparr>file_id = 5, mime_type = None\<rparr>" and a = None
      and m = "\<lparr>file_id = 5, mime_type = None\<rparr>", of "''I feel anxious today''"]
    g p a n r
  show ?thesis by (simp add: world0_def)
qed

section \<open>One reply for every message\<close>

lemma start_delivers_once:
  "\<forall>h r. truthy (body r) \<longrightarrow> reply_ok e h r \<Longrightarrow> delivered_once e u w (start e u w)"
  by (simp add: start_def delivered_once_reply_text split: option.split)

lemma language_cmd_delivers_once:
  "\<forall>h r. truthy (body r) \<longrightarrow> reply_ok e h r \<Longrightarrow> delivered_once e u w (language_cmd e u w)"
  by (simp add: language_cmd_def delivered_once_reply_text)

lemma video_handler_delivers_once:
  "\<forall>h r. truthy (body r) \<longrightarrow> reply_ok e h r \<Longrightarrow> delivered_once e u w (video_handler e u w)"
  by (simp add: video_handler_def delivered_once_reply_text)

lemma text_handler_delivers_once:
  assumes "\<forall>h r. truthy (body r) \<longrightarrow> reply_ok e h r"
  shows "delivered_once e u w (text_handler e u text w)"
proof (cases "truthy (normalize_language text)")
  case True
  with assms show ?thesis
    by (simp add: text_handler_def Let_def delivered_once_reply_text)
next
  case False
  show ?thesis
  proof (cases "get_language u (users w)")
    case None
    with False assms show ?thesis
      by (simp add: text_handler_def Let_def delivered_once_reply_text)
  next
    case (Some lang)
    obtain ai_response w1 where g:
      "generate_ai e [Text_part (prompt lang), Text_part text] w = (ai_response, w1)"
      by (cases "generate_ai e [Text_part (prompt lang), Text_part text] w")
    then have o: "outbox w1 = outbox w"
      by (auto simp: generate_ai_def split: sum.splits)
    from False Some g o assms show ?thesis
      by (simp add: text_handler_def Let_def delivered_once_reply_text)
  qed
qed

text \<open>
  The \<^verbatim>\<open>try\<close> block of the media handlers: when the reply with the generated text is
  refused, the fallback reply follows; two calls, of which the platform accepts one.
\<close>

lemma media_reply_delivers_once:
  assumes acc: "\<forall>h r. truthy (body r) \<longrightarrow> reply_ok e h r" and fb: "fb \<noteq> []"
  shows "delivered_once e u w (media_reply e u hint b mime fb w)"
proof (cases "generate_content e
    [Text_part (language_instruction
       (case get_language u (users w) of Some result \<Rightarrow> result | None \<Rightarrow> Some ''English'')
       @ '' '' @ hint), Bytes_part b mime]")
  case (Inl x)
  with acc fb show ?thesis
    by (simp add: media_reply_def Let_def delivered_once_reply_text)
next
  case (Inr response_text)
  from acc fb have ok: "\<And>h m. reply_ok e h \<lparr>recipient = u, body = Some fb, reply_markup = m\<rparr>"
    by simp
  show ?thesis
  proof (cases "reply_ok e (outbox w) \<lparr>recipient = u, body = response_text, reply_markup = None\<rparr>")
    case True
    with Inr show ?thesis
      by (simp add: media_reply_def Let_def reply_text_def delivered_once_def delivered_def
          new_replies_def)
  next
    case False
    with Inr ok show ?thesis
      by (simp add: media_reply_def Let_def reply_text_def delivered_once_def delivered_def
          new_replies_def)
  qed
qed

lemma photo_handler_delivers_once:
  "\<forall>h r. truthy (body r) \<longrightarrow> reply_ok e h r \<Longrightarrow> media_retrieved e (Photo_message u ps) \<Longrightarrow>
   delivered_once e u w (photo_handler e u ps w)"
  by (auto simp: photo_handler_def media_reply_delivers_once split: sum.splits)

lemma audio_handler_delivers_once:
  "\<forall>h r. truthy (body r) \<longrightarrow> reply_ok e h r \<Longrightarrow> media_retrieved e (Audio_message u v a) \<Longrightarrow>
   delivered_once e u w (audio_handler e u v a w)"
  by (auto simp: audio_handler_def media_reply_delivers_once split: sum.splits option.splits)

text \<open>
  Retrieval that fails ends the handler at once: its exception escapes, and the world,
  the outbox with it, is as the handler found it.
\<close>

lemma retrieval_failure_escapes:
  "\<not> media_retrieved e upd \<Longrightarrow> \<exists>x. process_update e upd w = (Some x, w)"
  by (cases upd)
    (auto simp: photo_handler_def audio_handler_def split: sum.splits option.splits)

text \<open>
  A photo whose download raises: the exception escapes the handler and no reply is
  made.
\<close>

theorem photo_download_counterexample:
  "process_update env_download_fails (Photo_message 7 [1, 2]) world0
     = (Some DownloadError, world0)
   \<and> outbox world0 = []"
  by (simp add: photo_handler_def last_item_def env_download_fails_def world0_def)

text \<open>
  Claim C1, amended. For every message of a supported kind whose media, if it has any,
  is retrieved, and with the platform accepting every reply that has a text that is
  not empty: the handler returns without an exception, and exactly one of its replies
  is accepted, a reply to the sender. This holds whatever the generation service does,
  an exception or an answer without text included, and whatever the platform does with
  a reply that has no text.
\<close>

theorem one_reply_when_media_retrieved:
  assumes "\<forall>h r. truthy (body r) \<longrightarrow> reply_ok e h r" and "media_retrieved e upd"
  shows "delivered_once e (sender upd) w (process_update e upd w)"
proof (cases upd)
  case (Start_command u)
  with assms show ?thesis by (simp add: start_delivers_once)
next
  case (Language_command u)
  with assms show ?thesis by (simp add: language_cmd_delivers_once)
next
  case (Text_message u t)
  with assms show ?thesis by (simp add: text_handler_delivers_once)
next
  case (Photo_message u ps)
  with assms show ?thesis by (simp add: photo_handler_delivers_once)
next
  case (Audio_message u v a)
  with assms show ?thesis by (simp add: audio_handler_delivers_once)
next
  case (Video_message u)
  with assms show ?thesis by (simp add: video_handler_delivers_once)
qed

text \<open>
  A photo for which the service answers without a text, on a platform that refuses
  such a reply: the refused call is followed by the fallback, which is the one reply
  accepted.
\<close>

theorem one_reply_when_media_retrieved_witness:
  "reply_ok env_no_text = (\<lambda>h r. truthy (body r))
   \<and> media_retrieved env_no_text (Photo_message 7 [1, 2])
   \<and> delivered_once env_no_text 7 world0
        (process_update env_no_text (Photo_message 7 [1, 2]) world0)
   \<and> process_update env_no_text (Photo_message 7 [1, 2]) world0 =
       (None, \<lparr>users = [], messages = [],
               outbox = [\<lparr>recipient = 7, body = None, reply_markup = None\<rparr>,
                         \<lparr>recipient = 7,
                          body = Some (''Couldn'' @ [CHR 0x27] @ ''t analyze image.''),
                          reply_markup = None\<rparr>],
               gen_calls = [[Text_part ''Respond in English. Describe this image emotionally.'',
                             Bytes_part [0xFF, 0xD8, 0xFF] ''image/jpeg'']]\<rparr>)
   \<and> delivered env_no_text world0
        (snd (process_update env_no_text (Photo_message 7 [1, 2]) world0)) =
       [\<lparr>recipient = 7, body = Some (''Couldn'' @ [CHR 0x27] @ ''t analyze image.''),
         reply_markup = None\<rparr>]"
proof -
  have a: "\<forall>h r. truthy (body r) \<longrightarrow> reply_ok env_no_text h r"
    by (simp add: env_no_text_def)
  have b: "media_retrieved env_no_text (Photo_message 7 [1, 2])"
    by (simp add: env_no_text_def last_item_def)
  have c: "process_update env_no_text (Photo_message 7 [1, 2]) world0 =
       (None, \<lparr>users = [], messages = [],
               outbox = [\<lparr>recipient = 7, body = None, reply_markup = None\<rparr>,
                         \<lparr>recipient = 7,
                          body = Some (''Couldn'' @ [CHR 0x27] @ ''t analyze image.''),
                          reply_markup = None\<rparr>],
               gen_calls = [[Text_part ''Respond in English. Describe this image emotionally.'',
                             Bytes_part [0xFF, 0xD8, 0xFF] ''image/jpeg'']]\<rparr>)"
    by (simp add: photo_handler_def last_item_def media_reply_def reply_text_def Let_def
        env_no_text_def world0_def language_instruction_def mapping_def)
  have d: "delivered env_no_text world0
        (snd (process_update env_no_text (Photo_message 7 [1, 2]) world0)) =
       [\<lparr>recipient = 7, body = Some (''Couldn'' @ [CHR 0x27] @ ''t analyze image.''),
         reply_markup = None\<rparr>]"
    by (simp only: c snd_conv) (simp add: delivered_def new_replies_def world0_def env_no_text_def)
  have k: "reply_ok env_no_text = (\<lambda>h r. truthy (body r))"
    by (simp add: env_no_text_def)
  from one_reply_when_media_retrieved [OF a b, of world0] k b c d show ?thesis by simp
qed

end
